theory Spec2Isabelle
  imports Main
begin

section \<open>Values crossing the HTTP boundary\<close>

text \<open>
  Request bodies are JSON. Numbers are carried as integers: no handler inspects a number,
  they are only passed through.
\<close>

datatype json =
    JNull
  | JBool bool
  | JNum int
  | JStr string
  | JArr "json list"
  | JObj "(string \<times> json) list"

text \<open>
  Everything a handler can throw. \<open>HTTPException\<close> carries the status and the message;
  \<open>TypeError\<close> is a property access or a call on \<open>undefined\<close>/\<open>null\<close> or on a value without
  that method; \<open>SyntaxError\<close> is a body that is not JSON; \<open>Rejected\<close> is the rejected
  promise of an external collaborator (database accessor, model call, sample generator).
\<close>

datatype exn = HTTPException nat string | TypeError | SyntaxError | Rejected

section \<open>Session (src/server/middlewares/session.ts)\<close>

text \<open>
  \<open>c.var.session\<close> has type \<open>Session | null\<close>; a session has an optional \<open>user\<close>, a user an
  optional \<open>id\<close>. The handlers read the session from the request context, so every handler
  below takes it as an argument; which value a routed request finds there is fixed where
  the routes are registered.
\<close>

record user =
  user_id :: "string option"

record session =
  user :: "user option"

section \<open>Stored entities and the state\<close>

record place =
  cityName :: string
  airportCode :: string
  timestamp :: string
  gate :: string
  terminal :: string

record reservation_props =
  seats :: "string list"
  flightNumber :: string
  departure :: place
  arrival :: place
  passengerName :: string

text \<open>\<open>{ ...props, totalPriceInUSD }\<close>: the tool's arguments together with the price.\<close>

record details =
  props :: reservation_props
  totalPriceInUSD :: int

record reservation =
  reservation_id :: string
  userId :: string
  hasCompletedPayment :: bool
  reservation_details :: details

datatype role = User | Assistant | Tool

record message =
  role :: role
  content :: string

record chat =
  chat_id :: string
  messages :: "message list"
  chat_userId :: string

text \<open>
  The state the handlers act on: the two tables behind \<open>@/db/queries\<close> and the lines
  written by \<open>console.error\<close>.
\<close>

record state =
  reservations :: "string \<rightharpoonup> reservation"
  chats :: "string \<rightharpoonup> chat"
  console :: "string list"

section \<open>External collaborators\<close>

datatype accessor =
    QGetReservationById
  | QUpdateReservation
  | QCreateReservation
  | QGetChatById
  | QDeleteChatById
  | QSaveChat

datatype tool_call =
    CallGetWeather int int
  | CallDisplayFlightStatus string string
  | CallSearchFlights string string
  | CallSelectSeats string
  | CallCreateReservation reservation_props
  | CallAuthorizePayment string
  | CallVerifyPayment string
  | CallDisplayBoardingPass json

text \<open>
  What the text-generation call does with the callbacks it is given: it invokes tool
  executors and, when the stream completes, \<open>onFinish\<close> with the response messages.
\<close>

datatype event = ToolCall tool_call | Finish "message list"

text \<open>
  The collaborators the routes import but do not define, taken as parameters:
  \<^item> \<open>rejects\<close>: the database accessors whose promise rejects;
  \<^item> \<open>auth\<close>: the session \<open>auth()\<close> resolves when the createReservation tool asks again;
  \<^item> \<open>generateUUID\<close>: the identifier the next call returns;
  \<^item> the price and sample-data generators and the weather request, each of which may reject;
  \<^item> \<open>streamText\<close>: for the messages passed, \<open>None\<close> when the call itself rejects, otherwise
    the callbacks the SDK fires, in order.
\<close>

record env =
  rejects :: "accessor \<Rightarrow> bool"
  auth :: "session option"
  generateUUID :: string
  generateReservationPrice :: "reservation_props \<Rightarrow> exn + int"
  generateSampleFlightStatus :: "string \<Rightarrow> string \<Rightarrow> exn + json"
  generateSampleFlightSearchResults :: "string \<Rightarrow> string \<Rightarrow> exn + json"
  generateSampleSeatSelection :: "string \<Rightarrow> exn + json"
  fetchWeather :: "int \<Rightarrow> int \<Rightarrow> exn + json"
  streamText :: "message list \<Rightarrow> event list option"

subsection \<open>Database accessors\<close>

text \<open>
  Modelled from the spec: the accessors of \<open>@/db/queries\<close> (getReservationById,
  updateReservation, createReservation, getChatById, deleteChatById, saveChat) are not among
  the sources. Each either rejects or acts on its table by identifier; a lookup of an absent
  identifier resolves to \<open>undefined\<close> (\<open>None\<close>). A lookup that rejects instead is the case
  \<open>rejects env QGetReservationById\<close>.
\<close>

definition getReservationById :: "env \<Rightarrow> state \<Rightarrow> string \<Rightarrow> exn + reservation option" where
  "getReservationById env st rid =
     (if rejects env QGetReservationById then Inl Rejected else Inr (reservations st rid))"

definition updateReservation ::
  "env \<Rightarrow> state \<Rightarrow> string \<Rightarrow> bool \<Rightarrow> exn + (reservation option \<times> state)" where
  "updateReservation env st rid paid =
     (if rejects env QUpdateReservation then Inl Rejected
      else (case reservations st rid of
              None \<Rightarrow> Inr (None, st)
            | Some r \<Rightarrow>
                (let r' = r\<lparr>hasCompletedPayment := paid\<rparr>
                 in Inr (Some r', st\<lparr>reservations := (reservations st)(rid \<mapsto> r')\<rparr>))))"

definition createReservation ::
  "env \<Rightarrow> state \<Rightarrow> string \<Rightarrow> string \<Rightarrow> details \<Rightarrow> exn + state" where
  "createReservation env st rid uid d =
     (if rejects env QCreateReservation then Inl Rejected
      else Inr (st\<lparr>reservations := (reservations st)(rid \<mapsto>
             \<lparr>reservation_id = rid, userId = uid, hasCompletedPayment = False,
              reservation_details = d\<rparr>)\<rparr>))"

definition getChatById :: "env \<Rightarrow> state \<Rightarrow> string \<Rightarrow> exn + chat option" where
  "getChatById env st cid =
     (if rejects env QGetChatById then Inl Rejected else Inr (chats st cid))"

definition deleteChatById :: "env \<Rightarrow> state \<Rightarrow> string \<Rightarrow> exn + state" where
  "deleteChatById env st cid =
     (if rejects env QDeleteChatById then Inl Rejected
      else Inr (st\<lparr>chats := (chats st)(cid := None)\<rparr>))"

definition saveChat :: "env \<Rightarrow> state \<Rightarrow> string \<Rightarrow> message list \<Rightarrow> string \<Rightarrow> exn + state" where
  "saveChat env st cid ms uid =
     (if rejects env QSaveChat then Inl Rejected
      else Inr (st\<lparr>chats := (chats st)(cid \<mapsto>
             \<lparr>chat_id = cid, messages = ms, chat_userId = uid\<rparr>)\<rparr>))"

section \<open>Responses\<close>

text \<open>What a tool executor returns to the SDK.\<close>

datatype tool_result =
    Payload json
  | ReservationCreated string reservation_props int
  | ErrorResult string
  | ReservationIdEcho string
  | PaymentStatus bool

text \<open>
  A response. The data stream carries what the executors returned or threw, in the
  order of the calls.
\<close>

datatype response =
    JsonReservation "reservation option"
  | TextBody nat string
  | DataStream "(exn + tool_result) list"
  | ValidationFailed

text \<open>
  The status the client sees. A thrown \<open>HTTPException\<close> answers with its own status, any
  other uncaught error with 500; \<open>c.json\<close> and the stream answer 200; the validator answers
  400 by itself.
\<close>

fun status_of :: "exn + response \<Rightarrow> nat" where
  "status_of (Inl (HTTPException n msg)) = n"
| "status_of (Inl e) = 500"
| "status_of (Inr (JsonReservation r)) = 200"
| "status_of (Inr (TextBody n b)) = n"
| "status_of (Inr (DataStream outs)) = 200"
| "status_of (Inr ValidationFailed) = 400"

section \<open>Reservation routes\<close>

subsection \<open>GET /:id\<close>

text \<open>
  The body of the \<open>try\<close> block. \<open>reservation.userId\<close> on \<open>undefined\<close> is a TypeError;
  \<open>!==\<close> compares the stored string with the possibly undefined session user id.
\<close>

definition reservation_get_try :: "env \<Rightarrow> state \<Rightarrow> user \<Rightarrow> string \<Rightarrow> exn + response" where
  "reservation_get_try env st u rid =
     (case getReservationById env st rid of
        Inl e \<Rightarrow> Inl e
      | Inr None \<Rightarrow> Inl TypeError
      | Inr (Some r) \<Rightarrow>
          if Some (userId r) \<noteq> user_id u then Inl (HTTPException 401 ''Unauthorized!'')
          else Inr (JsonReservation (Some r)))"

text \<open>The \<open>catch\<close> clause takes whatever the block threw and throws 500.\<close>

definition reservation_get ::
  "env \<Rightarrow> state \<Rightarrow> session option \<Rightarrow> string \<Rightarrow> (exn + response) \<times> state" where
  "reservation_get env st sess rid =
     (if rid = [] then (Inl (HTTPException 404 ''Not Found!''), st)
      else (case sess of
              None \<Rightarrow> (Inl (HTTPException 401 ''Unauthorized!''), st)
            | Some s \<Rightarrow>
                (case user s of
                   None \<Rightarrow> (Inl (HTTPException 401 ''Unauthorized!''), st)
                 | Some u \<Rightarrow>
                     (case reservation_get_try env st u rid of
                        Inl e \<Rightarrow>
                          (Inl (HTTPException 500
                             ''An error occurred while processing your request!''), st)
                      | Inr resp \<Rightarrow> (Inr resp, st)))))"

subsection \<open>PATCH /:id\<close>

text \<open>\<open>await c.req.json()\<close>: \<open>None\<close> is a body that does not parse.\<close>

definition req_json :: "json option \<Rightarrow> exn + json" where
  "req_json body = (case body of None \<Rightarrow> Inl SyntaxError | Some j \<Rightarrow> Inr j)"

text \<open>
  \<open>const { magicWord } = ...\<close>: destructuring \<open>null\<close> throws; an object gives the value of
  its key, or \<open>undefined\<close>; any other JSON value has no such property.
\<close>

fun destructure_magicWord :: "json \<Rightarrow> exn + json option" where
  "destructure_magicWord JNull = Inl TypeError"
| "destructure_magicWord (JObj kvs) = Inr (map_of kvs ''magicWord'')"
| "destructure_magicWord j = Inr None"

text \<open>
  \<open>String.prototype.toLowerCase\<close>, on the bytes of the string: the letters A to Z are
  mapped to a to z. No character outside ASCII lower-cases to one of the letters of the
  literal compared against, so the comparison below is the one the code makes.
\<close>

definition lower_char :: "char \<Rightarrow> char" where
  "lower_char c =
     (if 65 \<le> (of_char c :: nat) \<and> (of_char c :: nat) \<le> 90
      then char_of ((of_char c :: nat) + 32) else c)"

definition toLowerCase :: "string \<Rightarrow> string" where
  "toLowerCase s = map lower_char s"

text \<open>\<open>magicWord.toLowerCase()\<close>: only a string has the method.\<close>

fun call_toLowerCase :: "json option \<Rightarrow> exn + string" where
  "call_toLowerCase (Some (JStr s)) = Inr (toLowerCase s)"
| "call_toLowerCase v = Inl TypeError"

definition reservation_patch_try ::
  "env \<Rightarrow> state \<Rightarrow> user \<Rightarrow> string \<Rightarrow> json option \<Rightarrow> (exn + response) \<times> state" where
  "reservation_patch_try env st u rid body =
     (case getReservationById env st rid of
        Inl e \<Rightarrow> (Inl e, st)
      | Inr None \<Rightarrow> (Inl (HTTPException 404 ''Reservation not found!''), st)
      | Inr (Some r) \<Rightarrow>
          if Some (userId r) \<noteq> user_id u then (Inl (HTTPException 401 ''Unauthorized!''), st)
          else if hasCompletedPayment r
            then (Inl (HTTPException 409 ''Reservation is already paid!''), st)
          else (case req_json body of
                  Inl e \<Rightarrow> (Inl e, st)
                | Inr j \<Rightarrow>
                    (case destructure_magicWord j of
                       Inl e \<Rightarrow> (Inl e, st)
                     | Inr magicWord \<Rightarrow>
                         (case call_toLowerCase magicWord of
                            Inl e \<Rightarrow> (Inl e, st)
                          | Inr w \<Rightarrow>
                              if w \<noteq> ''vercel''
                              then (Inl (HTTPException 400 ''Invalid magic word!''), st)
                              else (case updateReservation env st rid True of
                                      Inl e \<Rightarrow> (Inl e, st)
                                    | Inr (updatedReservation, st') \<Rightarrow>
                                        (Inr (JsonReservation updatedReservation), st'))))))"

definition reservation_patch ::
  "env \<Rightarrow> state \<Rightarrow> session option \<Rightarrow> string \<Rightarrow> json option \<Rightarrow> (exn + response) \<times> state" where
  "reservation_patch env st sess rid body =
     (if rid = [] then (Inl (HTTPException 404 ''Not Found!''), st)
      else (case sess of
              None \<Rightarrow> (Inl (HTTPException 401 ''Unauthorized!''), st)
            | Some s \<Rightarrow>
                (case user s of
                   None \<Rightarrow> (Inl (HTTPException 401 ''Unauthorized!''), st)
                 | Some u \<Rightarrow>
                     (case reservation_patch_try env st u rid body of
                        (Inl e, st') \<Rightarrow>
                          (Inl (HTTPException 500
                             ''An error occurred while processing your request!''), st')
                      | (Inr resp, st') \<Rightarrow> (Inr resp, st')))))"

section \<open>Chat routes\<close>

subsection \<open>The request schema\<close>

text \<open>
  \<open>z.object({ id: z.string(), messages: z.array(z.object({ role: z.enum(["user",
  "assistant"]), content: z.string() })) })\<close>. An object schema accepts an object and
  drops the keys it does not name; \<open>z.string()\<close> accepts every string, the empty one too.
\<close>

definition parse_role :: "json \<Rightarrow> role option" where
  "parse_role j =
     (if j = JStr ''user'' then Some User
      else if j = JStr ''assistant'' then Some Assistant
      else None)"

fun parse_message :: "json \<Rightarrow> message option" where
  "parse_message (JObj kvs) =
     (case map_of kvs ''role'' of
        None \<Rightarrow> None
      | Some r \<Rightarrow>
          (case parse_role r of
             None \<Rightarrow> None
           | Some ro \<Rightarrow>
               (case map_of kvs ''content'' of
                  Some (JStr c) \<Rightarrow> Some \<lparr>role = ro, content = c\<rparr>
                | _ \<Rightarrow> None)))"
| "parse_message j = None"

fun parse_messages :: "json list \<Rightarrow> message list option" where
  "parse_messages [] = Some []"
| "parse_messages (j # js) =
     (case parse_message j of
        None \<Rightarrow> None
      | Some m \<Rightarrow> (case parse_messages js of None \<Rightarrow> None | Some ms \<Rightarrow> Some (m # ms)))"

fun schema :: "json \<Rightarrow> (string \<times> message list) option" where
  "schema (JObj kvs) =
     (case map_of kvs ''id'' of
        Some (JStr cid) \<Rightarrow>
          (case map_of kvs ''messages'' of
             Some (JArr js) \<Rightarrow>
               (case parse_messages js of None \<Rightarrow> None | Some ms \<Rightarrow> Some (cid, ms))
           | _ \<Rightarrow> None)
      | _ \<Rightarrow> None)"
| "schema j = None"

text \<open>\<open>zValidator("json", schema)\<close>: a body that does not parse fails as well.\<close>

definition zValidator :: "json option \<Rightarrow> (string \<times> message list) option" where
  "zValidator body = (case body of None \<Rightarrow> None | Some j \<Rightarrow> schema j)"

text \<open>
  \<open>convertToCoreMessages\<close> of the SDK: a validated message has a role and a text only,
  and is converted to the core message with the same role and text.
\<close>

definition convertToCoreMessages :: "message list \<Rightarrow> message list" where
  "convertToCoreMessages ms = ms"

subsection \<open>Tool executors\<close>

text \<open>\<open>session && session.user && session.user.id\<close>: the empty string is falsy.\<close>

definition signed_in_user_id :: "session option \<Rightarrow> string option" where
  "signed_in_user_id sess =
     (case sess of
        None \<Rightarrow> None
      | Some s \<Rightarrow>
          (case user s of
             None \<Rightarrow> None
           | Some u \<Rightarrow>
               (case user_id u of
                  None \<Rightarrow> None
                | Some uid \<Rightarrow> if uid = [] then None else Some uid)))"

definition getWeather_execute :: "env \<Rightarrow> int \<Rightarrow> int \<Rightarrow> exn + tool_result" where
  "getWeather_execute env latitude longitude =
     (case fetchWeather env latitude longitude of
        Inl e \<Rightarrow> Inl e
      | Inr weatherData \<Rightarrow> Inr (Payload weatherData))"

definition displayFlightStatus_execute :: "env \<Rightarrow> string \<Rightarrow> string \<Rightarrow> exn + tool_result" where
  "displayFlightStatus_execute env flightNo date =
     (case generateSampleFlightStatus env flightNo date of
        Inl e \<Rightarrow> Inl e
      | Inr flightStatus \<Rightarrow> Inr (Payload flightStatus))"

definition searchFlights_execute :: "env \<Rightarrow> string \<Rightarrow> string \<Rightarrow> exn + tool_result" where
  "searchFlights_execute env origin destination =
     (case generateSampleFlightSearchResults env origin destination of
        Inl e \<Rightarrow> Inl e
      | Inr results \<Rightarrow> Inr (Payload results))"

definition selectSeats_execute :: "env \<Rightarrow> string \<Rightarrow> exn + tool_result" where
  "selectSeats_execute env flightNo =
     (case generateSampleSeatSelection env flightNo of
        Inl e \<Rightarrow> Inl e
      | Inr s \<Rightarrow> Inr (Payload s))"

definition createReservation_execute ::
  "env \<Rightarrow> state \<Rightarrow> reservation_props \<Rightarrow> (exn + tool_result) \<times> state" where
  "createReservation_execute env st p =
     (case generateReservationPrice env p of
        Inl e \<Rightarrow> (Inl e, st)
      | Inr price \<Rightarrow>
          (let sess = auth env; rid = generateUUID env
           in (case signed_in_user_id sess of
                 Some uid \<Rightarrow>
                   (case createReservation env st rid uid
                           \<lparr>props = p, totalPriceInUSD = price\<rparr> of
                      Inl e \<Rightarrow> (Inl e, st)
                    | Inr st' \<Rightarrow> (Inr (ReservationCreated rid p price), st'))
               | None \<Rightarrow>
                   (Inr (ErrorResult ''User is not signed in to perform this action!''), st))))"

definition authorizePayment_execute :: "string \<Rightarrow> exn + tool_result" where
  "authorizePayment_execute reservationId = Inr (ReservationIdEcho reservationId)"

text \<open>\<open>reservation.hasCompletedPayment\<close> on \<open>undefined\<close> is a TypeError.\<close>

definition verifyPayment_execute :: "env \<Rightarrow> state \<Rightarrow> string \<Rightarrow> exn + tool_result" where
  "verifyPayment_execute env st reservationId =
     (case getReservationById env st reservationId of
        Inl e \<Rightarrow> Inl e
      | Inr None \<Rightarrow> Inl TypeError
      | Inr (Some r) \<Rightarrow>
          if hasCompletedPayment r then Inr (PaymentStatus True)
          else Inr (PaymentStatus False))"

definition displayBoardingPass_execute :: "json \<Rightarrow> exn + tool_result" where
  "displayBoardingPass_execute boardingPass = Inr (Payload boardingPass)"

text \<open>The tool catalogue: the executor registered under each name.\<close>

fun execute_tool :: "env \<Rightarrow> state \<Rightarrow> tool_call \<Rightarrow> (exn + tool_result) \<times> state" where
  "execute_tool env st (CallGetWeather latitude longitude) =
     (getWeather_execute env latitude longitude, st)"
| "execute_tool env st (CallDisplayFlightStatus flightNo date) =
     (displayFlightStatus_execute env flightNo date, st)"
| "execute_tool env st (CallSearchFlights origin destination) =
     (searchFlights_execute env origin destination, st)"
| "execute_tool env st (CallSelectSeats flightNo) = (selectSeats_execute env flightNo, st)"
| "execute_tool env st (CallCreateReservation p) = createReservation_execute env st p"
| "execute_tool env st (CallAuthorizePayment reservationId) =
     (authorizePayment_execute reservationId, st)"
| "execute_tool env st (CallVerifyPayment reservationId) =
     (verifyPayment_execute env st reservationId, st)"
| "execute_tool env st (CallDisplayBoardingPass boardingPass) =
     (displayBoardingPass_execute boardingPass, st)"

subsection \<open>POST /\<close>

text \<open>
  \<open>onFinish\<close>, closed over the handler's \<open>session\<close>, \<open>id\<close> and \<open>coreMessages\<close>. The guard
  is \<open>session.user && session.user.id\<close>; the \<open>catch\<close> writes one line and returns.
\<close>

definition onFinish ::
  "env \<Rightarrow> session \<Rightarrow> string \<Rightarrow> message list \<Rightarrow> message list \<Rightarrow> state \<Rightarrow> state" where
  "onFinish env s cid coreMessages responseMessages st =
     (case signed_in_user_id (Some s) of
        None \<Rightarrow> st
      | Some uid \<Rightarrow>
          (case saveChat env st cid (coreMessages @ responseMessages) uid of
             Inl e \<Rightarrow> st\<lparr>console := console st @ [''Failed to save chat'']\<rparr>
           | Inr st' \<Rightarrow> st'))"

text \<open>The callbacks of one streaming call, run in the order the SDK fires them.\<close>

fun run_events ::
  "env \<Rightarrow> session \<Rightarrow> string \<Rightarrow> message list \<Rightarrow> event list \<Rightarrow> state \<Rightarrow>
   (exn + tool_result) list \<times> state" where
  "run_events env s cid coreMessages [] st = ([], st)"
| "run_events env s cid coreMessages (ToolCall call # evs) st =
     (case execute_tool env st call of
        (out, st') \<Rightarrow>
          (case run_events env s cid coreMessages evs st' of
             (outs, st'') \<Rightarrow> (out # outs, st'')))"
| "run_events env s cid coreMessages (Finish responseMessages # evs) st =
     run_events env s cid coreMessages evs
       (onFinish env s cid coreMessages responseMessages st)"

text \<open>
  The validator runs before the handler. The handler's guard is \<open>!session\<close> alone. A
  rejected \<open>streamText\<close> is not caught.
\<close>

definition chat_post ::
  "env \<Rightarrow> state \<Rightarrow> session option \<Rightarrow> json option \<Rightarrow> (exn + response) \<times> state" where
  "chat_post env st sess body =
     (case zValidator body of
        None \<Rightarrow> (Inr ValidationFailed, st)
      | Some (cid, ms) \<Rightarrow>
          (case sess of
             None \<Rightarrow> (Inl (HTTPException 401 ''Unauthorized''), st)
           | Some s \<Rightarrow>
               (let coreMessages =
                      filter (\<lambda>m. length (content m) > 0) (convertToCoreMessages ms)
                in (case streamText env coreMessages of
                      None \<Rightarrow> (Inl Rejected, st)
                    | Some evs \<Rightarrow>
                        (case run_events env s cid coreMessages evs st of
                           (outs, st') \<Rightarrow> (Inr (DataStream outs), st'))))))"

subsection \<open>DELETE /:id\<close>

definition chat_delete_try ::
  "env \<Rightarrow> state \<Rightarrow> user \<Rightarrow> string \<Rightarrow> (exn + response) \<times> state" where
  "chat_delete_try env st u cid =
     (case getChatById env st cid of
        Inl e \<Rightarrow> (Inl e, st)
      | Inr None \<Rightarrow> (Inl TypeError, st)
      | Inr (Some ch) \<Rightarrow>
          if Some (chat_userId ch) \<noteq> user_id u then (Inl (HTTPException 401 ''Unauthorized''), st)
          else (case deleteChatById env st cid of
                  Inl e \<Rightarrow> (Inl e, st)
                | Inr st' \<Rightarrow> (Inr (TextBody 200 ''Chat deleted successfully''), st')))"

text \<open>The \<open>catch\<close> clause writes to the console before it throws 500.\<close>

definition chat_delete ::
  "env \<Rightarrow> state \<Rightarrow> session option \<Rightarrow> string \<Rightarrow> (exn + response) \<times> state" where
  "chat_delete env st sess cid =
     (if cid = [] then (Inl (HTTPException 404 ''Not Found''), st)
      else (case sess of
              None \<Rightarrow> (Inl (HTTPException 401 ''Unauthorized''), st)
            | Some s \<Rightarrow>
                (case user s of
                   None \<Rightarrow> (Inl (HTTPException 401 ''Unauthorized''), st)
                 | Some u \<Rightarrow>
                     (case chat_delete_try env st u cid of
                        (Inl e, st') \<Rightarrow>
                          (Inl (HTTPException 500
                             ''An error occurred while processing your request''),
                           st'\<lparr>console := console st' @ [''Error deleting chat:'']\<rparr>)
                      | (Inr resp, st') \<Rightarrow> (Inr resp, st')))))"

section \<open>Registration of the routes\<close>

datatype http_method = GET | POST | PATCH | DELETE

text \<open>
  \<open>sessionMiddleware\<close> (session.ts): \<open>c.set("session", await auth())\<close>.
\<close>

definition sessionMiddleware :: "env \<Rightarrow> session option" where
  "sessionMiddleware env = auth env"

text \<open>
  Both groups of routes register it with \<open>.use("/", sessionMiddleware)\<close>. The router
  matches that registration on the path \<open>/\<close> of the group and on no other, so the
  variable is set for a request to the root of the group only. On \<open>/:id\<close> it was never
  set and \<open>c.var.session\<close> reads \<open>undefined\<close>, which the guards \<open>!session\<close> take as they
  take \<open>null\<close>. A path is given by its segments below the mount point of the group:
  \<open>[]\<close> is \<open>/\<close>, \<open>[x]\<close> is \<open>/x\<close>.
\<close>

definition c_var_session :: "env \<Rightarrow> string list \<Rightarrow> session option" where
  "c_var_session env segs = (if segs = [] then sessionMiddleware env else None)"

text \<open>
  The group \<open>reservation\<close>, mounted at \<open>/api/reservation\<close>: \<open>.get("/:id")\<close> and
  \<open>.patch("/:id")\<close>. A parameter matches one non-empty segment; \<open>None\<close> is a request that
  no handler of the group takes.
\<close>

definition reservation_app ::
  "env \<Rightarrow> state \<Rightarrow> http_method \<Rightarrow> string list \<Rightarrow> json option \<Rightarrow>
   ((exn + response) \<times> state) option" where
  "reservation_app env st m segs body =
     (case segs of
        [rid] \<Rightarrow>
          if rid = [] then None
          else if m = GET then Some (reservation_get env st (c_var_session env segs) rid)
          else if m = PATCH
            then Some (reservation_patch env st (c_var_session env segs) rid body)
          else None
      | _ \<Rightarrow> None)"

text \<open>The group \<open>chat\<close>, mounted at \<open>/api/chat\<close>: \<open>.post("/")\<close> and \<open>.delete("/:id")\<close>.\<close>

definition chat_app ::
  "env \<Rightarrow> state \<Rightarrow> http_method \<Rightarrow> string list \<Rightarrow> json option \<Rightarrow>
   ((exn + response) \<times> state) option" where
  "chat_app env st m segs body =
     (case segs of
        [] \<Rightarrow> if m = POST then Some (chat_post env st (c_var_session env segs) body) else None
      | [cid] \<Rightarrow>
          if cid = [] then None
          else if m = DELETE then Some (chat_delete env st (c_var_session env segs) cid)
          else None
      | _ \<Rightarrow> None)"

section \<open>The request schema in words\<close>

text \<open>
  The schema as the specification words it, the text of a message being any string: an
  object with a string under \<open>id\<close> and, under \<open>messages\<close>, a list of objects whose role is
  \<open>user\<close> or \<open>assistant\<close> and whose content is a string.
\<close>

fun spec_well_formed_message :: "json \<Rightarrow> bool" where
  "spec_well_formed_message (JObj kvs) =
     ((map_of kvs ''role'' = Some (JStr ''user'') \<or> map_of kvs ''role'' = Some (JStr ''assistant''))
      \<and> (case map_of kvs ''content'' of Some (JStr c) \<Rightarrow> True | _ \<Rightarrow> False))"
| "spec_well_formed_message j = False"

fun spec_well_formed_body :: "json \<Rightarrow> bool" where
  "spec_well_formed_body (JObj kvs) =
     ((case map_of kvs ''id'' of Some (JStr cid) \<Rightarrow> True | _ \<Rightarrow> False)
      \<and> (case map_of kvs ''messages'' of
            Some (JArr js) \<Rightarrow> list_all spec_well_formed_message js
          | _ \<Rightarrow> False))"
| "spec_well_formed_body j = False"

section \<open>Example requests\<close>

text \<open>
  Concrete sessions, stored rows, collaborators and bodies, on which the handlers are
  evaluated below. Alice owns reservation \<open>r1\<close> and chat \<open>c1\<close>; Bob owns nothing; the
  anonymous session has no user.
\<close>

definition alice :: session where
  "alice = \<lparr>user = Some \<lparr>user_id = Some ''A''\<rparr>\<rparr>"


definition anonymous :: session where
  "anonymous = \<lparr>user = None\<rparr>"

definition sfo :: place where
  "sfo = \<lparr>cityName = ''San Francisco'', airportCode = ''SFO'', timestamp = ''2024-01-01'',
          gate = ''G1'', terminal = ''T2''\<rparr>"

definition props0 :: reservation_props where
  "props0 = \<lparr>seats = [''1A''], flightNumber = ''BA142'', departure = sfo, arrival = sfo,
             passengerName = ''Alice''\<rparr>"

definition r1 :: reservation where
  "r1 = \<lparr>reservation_id = ''r1'', userId = ''A'', hasCompletedPayment = False,
         reservation_details = \<lparr>props = props0, totalPriceInUSD = 100\<rparr>\<rparr>"

definition c1 :: chat where
  "c1 = \<lparr>chat_id = ''c1'', messages = [\<lparr>role = User, content = ''hello''\<rparr>],
         chat_userId = ''A''\<rparr>"

definition st0 :: state where
  "st0 = \<lparr>reservations = [''r1'' \<mapsto> r1], chats = [''c1'' \<mapsto> c1], console = []\<rparr>"

definition st_paid :: state where
  "st_paid = \<lparr>reservations = [''r1'' \<mapsto> r1\<lparr>hasCompletedPayment := True\<rparr>],
               chats = [''c1'' \<mapsto> c1], console = []\<rparr>"

text \<open>Every collaborator succeeds; the model answers the events given.\<close>

definition env_with :: "event list \<Rightarrow> env" where
  "env_with evs =
     \<lparr>rejects = (\<lambda>a. False), auth = Some alice, generateUUID = ''r2'',
      generateReservationPrice = (\<lambda>p. Inr 100),
      generateSampleFlightStatus = (\<lambda>f d. Inr JNull),
      generateSampleFlightSearchResults = (\<lambda>f d. Inr JNull),
      generateSampleSeatSelection = (\<lambda>f. Inr JNull),
      fetchWeather = (\<lambda>la lo. Inr JNull),
      streamText = (\<lambda>ms. Some evs)\<rparr>"

definition env0 :: env where
  "env0 = env_with []"

definition magic :: "string \<Rightarrow> json option" where
  "magic w = Some (JObj [(''magicWord'', JStr w)])"

definition msg :: "string \<Rightarrow> string \<Rightarrow> json" where
  "msg r c = JObj [(''role'', JStr r), (''content'', JStr c)]"

definition chat_body :: "json list \<Rightarrow> json option" where
  "chat_body ms = Some (JObj [(''id'', JStr ''c2''), (''messages'', JArr ms)])"

section \<open>Facts shared by the properties\<close>

lemma signed_in_user_id_Some:
  "signed_in_user_id sess = Some uid \<longleftrightarrow>
     (\<exists>s u. sess = Some s \<and> user s = Some u \<and> user_id u = Some uid \<and> uid \<noteq> [])"
  by (auto simp: signed_in_user_id_def split: option.splits)

lemma signed_in_user_id_None:
  "signed_in_user_id (Some s) = None \<longleftrightarrow>
     (user s = None \<or> (\<exists>u. user s = Some u \<and> (user_id u = None \<or> user_id u = Some [])))"
  by (auto simp: signed_in_user_id_def split: option.splits)

lemma execute_tool_chats: "chats (snd (execute_tool env st call)) = chats st"
  by (cases call) (auto simp: createReservation_execute_def createReservation_def Let_def
      split: sum.splits option.splits)

lemma onFinish_reservations:
  "reservations (onFinish env s cid cm rm st) = reservations st"
  by (auto simp: onFinish_def saveChat_def split: option.splits sum.splits)

lemma onFinish_signed_out:
  "signed_in_user_id (Some s) = None \<Longrightarrow> onFinish env s cid cm rm st = st"
  by (simp add: onFinish_def)

lemma run_events_signed_out_chats:
  "signed_in_user_id (Some s) = None \<Longrightarrow>
     chats (snd (run_events env s cid cm evs st)) = chats st"
proof (induction evs arbitrary: st)
  case Nil
  then show ?case by simp
next
  case (Cons ev evs)
  show ?case
  proof (cases ev)
    case (ToolCall call)
    obtain out st' where ex: "execute_tool env st call = (out, st')"
      by (cases "execute_tool env st call")
    have "chats st' = chats st"
      using execute_tool_chats [of env st call] ex by simp
    moreover have "chats (snd (run_events env s cid cm evs st')) = chats st'"
      using Cons.IH [OF Cons.prems] .
    ultimately show ?thesis
      using ToolCall ex by (auto split: prod.splits)
  next
    case (Finish rm)
    then show ?thesis
      using Cons.IH [OF Cons.prems] Cons.prems by (simp add: onFinish_signed_out)
  qed
qed

lemma chat_post_valid:
  "zValidator body = Some (cid, ms) \<Longrightarrow>
   chat_post env st (Some s) body =
     (case streamText env (filter (\<lambda>m. content m \<noteq> []) ms) of
        None \<Rightarrow> (Inl Rejected, st)
      | Some evs \<Rightarrow>
          (Inr (DataStream (fst (run_events env s cid (filter (\<lambda>m. content m \<noteq> []) ms) evs st))),
           snd (run_events env s cid (filter (\<lambda>m. content m \<noteq> []) ms) evs st)))"
  by (simp add: chat_post_def convertToCoreMessages_def split: option.splits prod.splits)

lemma execute_tool_save_indep:
  assumes "auth e1 = auth e2" and "generateUUID e1 = generateUUID e2"
    and "generateReservationPrice e1 = generateReservationPrice e2"
    and "generateSampleFlightStatus e1 = generateSampleFlightStatus e2"
    and "generateSampleFlightSearchResults e1 = generateSampleFlightSearchResults e2"
    and "generateSampleSeatSelection e1 = generateSampleSeatSelection e2"
    and "fetchWeather e1 = fetchWeather e2"
    and "\<forall>a. a \<noteq> QSaveChat \<longrightarrow> rejects e1 a = rejects e2 a"
    and "reservations st1 = reservations st2"
  shows "fst (execute_tool e1 st1 call) = fst (execute_tool e2 st2 call)
       \<and> reservations (snd (execute_tool e1 st1 call)) =
         reservations (snd (execute_tool e2 st2 call))"
  using assms
  by (cases call)
     (auto simp: getWeather_execute_def displayFlightStatus_execute_def searchFlights_execute_def
        selectSeats_execute_def createReservation_execute_def createReservation_def
        authorizePayment_execute_def verifyPayment_execute_def getReservationById_def
        displayBoardingPass_execute_def Let_def
        split: sum.splits option.splits)

lemma run_events_save_indep:
  assumes "auth e1 = auth e2" and "generateUUID e1 = generateUUID e2"
    and "generateReservationPrice e1 = generateReservationPrice e2"
    and "generateSampleFlightStatus e1 = generateSampleFlightStatus e2"
    and "generateSampleFlightSearchResults e1 = generateSampleFlightSearchResults e2"
    and "generateSampleSeatSelection e1 = generateSampleSeatSelection e2"
    and "fetchWeather e1 = fetchWeather e2"
    and "\<forall>a. a \<noteq> QSaveChat \<longrightarrow> rejects e1 a = rejects e2 a"
  shows "reservations st1 = reservations st2 \<Longrightarrow>
         fst (run_events e1 s cid cm evs st1) = fst (run_events e2 s cid cm evs st2)"
proof (induction evs arbitrary: st1 st2)
  case Nil
  then show ?case by simp
next
  case (Cons ev evs)
  show ?case
  proof (cases ev)
    case (ToolCall call)
    obtain o1 s1 where x1: "execute_tool e1 st1 call = (o1, s1)"
      by (cases "execute_tool e1 st1 call")
    obtain o2 s2 where x2: "execute_tool e2 st2 call = (o2, s2)"
      by (cases "execute_tool e2 st2 call")
    have "o1 = o2" and same: "reservations s1 = reservations s2"
      using execute_tool_save_indep [OF assms Cons.prems, of call] x1 x2 by simp_all
    moreover have "fst (run_events e1 s cid cm evs s1) = fst (run_events e2 s cid cm evs s2)"
      by (rule Cons.IH [OF same])
    ultimately show ?thesis
      using x1 x2 ToolCall by (auto split: prod.splits)
  next
    case (Finish rm)
    have "reservations (onFinish e1 s cid cm rm st1) = reservations (onFinish e2 s cid cm rm st2)"
      using Cons.prems by (simp add: onFinish_reservations)
    then have "fst (run_events e1 s cid cm evs (onFinish e1 s cid cm rm st1)) =
               fst (run_events e2 s cid cm evs (onFinish e2 s cid cm rm st2))"
      by (rule Cons.IH)
    then show ?thesis
      using Finish by simp
  qed
qed

lemma chat_post_signed_out:
  assumes "signed_in_user_id (Some s) = None" and "zValidator body = Some v"
  shows "status_of (fst (chat_post env st (Some s) body)) \<noteq> 401
       \<and> chats (snd (chat_post env st (Some s) body)) = chats st"
proof -
  obtain cid ms where v: "v = (cid, ms)" by (cases v)
  show ?thesis
    using assms v run_events_signed_out_chats [OF assms(1), of env cid]
    by (simp add: chat_post_valid split: option.splits)
qed

lemma parse_message_accepts:
  "parse_message j \<noteq> None \<longleftrightarrow> spec_well_formed_message j"
  by (cases j) (auto simp: parse_role_def split: option.splits json.splits)

lemma parse_messages_accepts:
  "parse_messages js \<noteq> None \<longleftrightarrow> list_all spec_well_formed_message js"
proof (induction js)
  case Nil
  then show ?case by simp
next
  case (Cons j js)
  then show ?case
    using parse_message_accepts [of j] by (auto split: option.splits)
qed

lemma schema_accepts: "schema j \<noteq> None \<longleftrightarrow> spec_well_formed_body j"
proof (cases j)
  case (JObj kvs)
  show ?thesis
  proof (cases "map_of kvs ''id''")
    case None
    then show ?thesis using JObj by simp
  next
    case (Some i)
    show ?thesis
    proof (cases "map_of kvs ''messages''")
      case None
      then show ?thesis using JObj Some by (simp split: json.splits)
    next
      case (Some m)
      then show ?thesis
        using JObj \<open>map_of kvs ''id'' = Some i\<close>
        by (cases i; cases m) (auto simp: parse_messages_accepts [symmetric] split: option.splits)
    qed
  qed
qed simp_all

lemma toLowerCase_examples:
  "toLowerCase ''VERCEL'' = ''vercel''"
  "toLowerCase ''vercel'' = ''vercel''"
  "toLowerCase ''Vercel'' = ''vercel''"
  "toLowerCase ''nope'' = ''nope''"
  by code_simp+

lemma fixture_lookups:
  "getReservationById env0 st0 ''r1'' = Inr (Some r1)"
  "getReservationById env0 st0 ''r9'' = Inr None"
  "getReservationById env0 st_paid ''r1'' = Inr (Some (r1\<lparr>hasCompletedPayment := True\<rparr>))"
  "reservations st0 ''r1'' = Some r1"
  "chats st0 ''c1'' = Some c1"
  by (simp_all add: getReservationById_def env0_def env_with_def st0_def st_paid_def)

lemma c_var_session_param: "rid \<noteq> [] \<Longrightarrow> c_var_session env [rid] = None"
  by (simp add: c_var_session_def)

lemma c_var_session_root: "c_var_session env [] = auth env"
  by (simp add: c_var_session_def sessionMiddleware_def)

lemma param_routes_unauthorized:
  assumes "rid \<noteq> []"
  shows "reservation_app env st GET [rid] body =
           Some (Inl (HTTPException 401 ''Unauthorized!''), st)"
    and "reservation_app env st PATCH [rid] body =
           Some (Inl (HTTPException 401 ''Unauthorized!''), st)"
    and "chat_app env st DELETE [rid] body =
           Some (Inl (HTTPException 401 ''Unauthorized''), st)"
  using assms
  by (simp_all add: reservation_app_def chat_app_def c_var_session_def reservation_get_def
      reservation_patch_def chat_delete_def)

lemma chat_app_post: "chat_app env st POST [] body = Some (chat_post env st (auth env) body)"
  by (simp add: chat_app_def c_var_session_root)

lemma execute_tool_signed_out:
  "signed_in_user_id (auth env) = None \<Longrightarrow> snd (execute_tool env st call) = st"
  by (cases call) (auto simp: createReservation_execute_def Let_def split: sum.splits)

lemma run_events_signed_out_state:
  assumes "signed_in_user_id (Some s) = None" and "signed_in_user_id (auth env) = None"
  shows "snd (run_events env s cid cm evs st) = st"
proof (induction evs)
  case Nil
  then show ?case by simp
next
  case (Cons ev evs)
  show ?case
  proof (cases ev)
    case (ToolCall call)
    obtain out st' where ex: "execute_tool env st call = (out, st')"
      by (cases "execute_tool env st call")
    then have "st' = st"
      using execute_tool_signed_out [OF assms(2), of st call] by simp
    then show ?thesis
      using ToolCall ex Cons.IH by (auto split: prod.splits)
  next
    case (Finish rm)
    then show ?thesis
      using Cons.IH assms(1) by (simp add: onFinish_signed_out)
  qed
qed

lemma run_events_stream_indep:
  "reservations st1 = reservations st2 \<Longrightarrow>
   fst (run_events env s1 cid1 cm1 evs st1) = fst (run_events env s2 cid2 cm2 evs st2)"
proof (induction evs arbitrary: st1 st2)
  case Nil
  then show ?case by simp
next
  case (Cons ev evs)
  show ?case
  proof (cases ev)
    case (ToolCall call)
    obtain o1 t1 where x1: "execute_tool env st1 call = (o1, t1)"
      by (cases "execute_tool env st1 call")
    obtain o2 t2 where x2: "execute_tool env st2 call = (o2, t2)"
      by (cases "execute_tool env st2 call")
    have "o1 = o2" and same: "reservations t1 = reservations t2"
      using execute_tool_save_indep [of env env st1 st2 call] Cons.prems x1 x2 by simp_all
    moreover have "fst (run_events env s1 cid1 cm1 evs t1) = fst (run_events env s2 cid2 cm2 evs t2)"
      by (rule Cons.IH [OF same])
    ultimately show ?thesis
      using x1 x2 ToolCall by (auto split: prod.splits)
  next
    case (Finish rm)
    have "reservations (onFinish env s1 cid1 cm1 rm st1) =
          reservations (onFinish env s2 cid2 cm2 rm st2)"
      using Cons.prems by (simp add: onFinish_reservations)
    then have "fst (run_events env s1 cid1 cm1 evs (onFinish env s1 cid1 cm1 rm st1)) =
               fst (run_events env s2 cid2 cm2 evs (onFinish env s2 cid2 cm2 rm st2))"
      by (rule Cons.IH)
    then show ?thesis
      using Finish by simp
  qed
qed

lemma reservation_patch_try_success:
  "reservation_patch_try env st u rid body = (Inr resp, st') \<Longrightarrow> \<exists>x. resp = JsonReservation x"
  by (auto simp: reservation_patch_try_def split: sum.splits option.splits if_splits prod.splits)

lemma reservation_patch_statuses:
  "status_of (fst (reservation_patch env st sess rid body)) \<in> {200, 401, 404, 500}"
  by (auto simp: reservation_patch_def split: option.splits sum.splits prod.splits
      dest!: reservation_patch_try_success)

lemma reservation_patch_catch:
  "rid \<noteq> [] \<Longrightarrow>
   reservation_patch env st (Some \<lparr>user = Some u\<rparr>) rid body =
     (case reservation_patch_try env st u rid body of
        (Inl e, st') \<Rightarrow>
          (Inl (HTTPException 500 ''An error occurred while processing your request!''), st')
      | (Inr resp, st') \<Rightarrow> (Inr resp, st'))"
  by (simp add: reservation_patch_def)

lemma streamText_env_with: "streamText (env_with evs) ms = Some evs"
  by (simp add: env_with_def)

section \<open>Properties of the routes\<close>

subsection \<open>Persisting the conversation\<close>

text \<open>
  C8: when the stream completes, the history is saved exactly when the session carries a
  user with an id (a non-empty string, the only kind the guard lets through): the filtered
  input messages followed by the response messages, under that user id and the
  conversation id. When the save rejects, one line is written to the console, nothing is
  stored and nothing is thrown; the response of the handler, stream content included, is
  the same whether the save rejects or not.
\<close>

theorem onFinish_persists_history:
  "(\<forall>u uid. user s = Some u \<and> user_id u = Some uid \<and> uid \<noteq> [] \<and> \<not> rejects env QSaveChat \<longrightarrow>
      onFinish env s cid cm rm st =
        st\<lparr>chats := (chats st)(cid \<mapsto> \<lparr>chat_id = cid, messages = cm @ rm, chat_userId = uid\<rparr>)\<rparr>)
   \<and> (\<forall>u uid. user s = Some u \<and> user_id u = Some uid \<and> uid \<noteq> [] \<and> rejects env QSaveChat \<longrightarrow>
      onFinish env s cid cm rm st = st\<lparr>console := console st @ [''Failed to save chat'']\<rparr>)
   \<and> (signed_in_user_id (Some s) = None \<longrightarrow> onFinish env s cid cm rm st = st)
   \<and> (\<forall>ms. zValidator body = Some (cid, ms) \<and>
            streamText env (filter (\<lambda>m. content m \<noteq> []) ms) = Some [Finish rm] \<longrightarrow>
        chat_post env st (Some s) body =
          (Inr (DataStream []), onFinish env s cid (filter (\<lambda>m. content m \<noteq> []) ms) rm st))
   \<and> fst (chat_post (env\<lparr>rejects := (rejects env)(QSaveChat := True)\<rparr>) st (Some s) body) =
     fst (chat_post (env\<lparr>rejects := (rejects env)(QSaveChat := False)\<rparr>) st (Some s) body)"
proof -
  have saved: "\<forall>u uid. user s = Some u \<and> user_id u = Some uid \<and> uid \<noteq> [] \<and> \<not> rejects env QSaveChat \<longrightarrow>
      onFinish env s cid cm rm st =
        st\<lparr>chats := (chats st)(cid \<mapsto> \<lparr>chat_id = cid, messages = cm @ rm, chat_userId = uid\<rparr>)\<rparr>"
    by (simp add: onFinish_def signed_in_user_id_def saveChat_def)
  have swallowed: "\<forall>u uid. user s = Some u \<and> user_id u = Some uid \<and> uid \<noteq> [] \<and> rejects env QSaveChat \<longrightarrow>
      onFinish env s cid cm rm st = st\<lparr>console := console st @ [''Failed to save chat'']\<rparr>"
    by (simp add: onFinish_def signed_in_user_id_def saveChat_def)
  have skipped: "signed_in_user_id (Some s) = None \<longrightarrow> onFinish env s cid cm rm st = st"
    by (simp add: onFinish_def)
  have wired: "\<forall>ms. zValidator body = Some (cid, ms) \<and>
            streamText env (filter (\<lambda>m. content m \<noteq> []) ms) = Some [Finish rm] \<longrightarrow>
        chat_post env st (Some s) body =
          (Inr (DataStream []), onFinish env s cid (filter (\<lambda>m. content m \<noteq> []) ms) rm st)"
    by (simp add: chat_post_valid)
  have response: "fst (chat_post (env\<lparr>rejects := (rejects env)(QSaveChat := True)\<rparr>) st (Some s) body) =
     fst (chat_post (env\<lparr>rejects := (rejects env)(QSaveChat := False)\<rparr>) st (Some s) body)"
  proof (cases "zValidator body")
    case None
    then show ?thesis by (simp add: chat_post_def)
  next
    case (Some v)
    obtain cid' ms where v: "v = (cid', ms)" by (cases v)
    show ?thesis
    proof (cases "streamText env (filter (\<lambda>m. content m \<noteq> []) ms)")
      case None
      then show ?thesis
        using Some v by (simp add: chat_post_valid)
    next
      case (Some evs)
      have "fst (run_events (env\<lparr>rejects := (rejects env)(QSaveChat := True)\<rparr>) s cid'
                   (filter (\<lambda>m. content m \<noteq> []) ms) evs st) =
            fst (run_events (env\<lparr>rejects := (rejects env)(QSaveChat := False)\<rparr>) s cid'
                   (filter (\<lambda>m. content m \<noteq> []) ms) evs st)"
        by (rule run_events_save_indep) simp_all
      then show ?thesis
        using \<open>zValidator body = Some v\<close> v Some by (simp add: chat_post_valid)
    qed
  qed
  from saved swallowed skipped wired response show ?thesis by blast
qed

theorem onFinish_persists_history_witness:
  "chat_post (env_with [Finish [\<lparr>role = Assistant, content = ''ok''\<rparr>]]) st0 (Some alice)
       (chat_body [msg ''user'' ''hi'', msg ''assistant'' ''''])
     = (Inr (DataStream []),
        st0\<lparr>chats := (chats st0)(''c2'' \<mapsto>
          \<lparr>chat_id = ''c2'',
           messages = [\<lparr>role = User, content = ''hi''\<rparr>, \<lparr>role = Assistant, content = ''ok''\<rparr>],
           chat_userId = ''A''\<rparr>)\<rparr>)
   \<and> onFinish (env0\<lparr>rejects := (\<lambda>a. a = QSaveChat)\<rparr>) alice ''c2'' [] [] st0
     = st0\<lparr>console := console st0 @ [''Failed to save chat'']\<rparr>
   \<and> onFinish env0 anonymous ''c2'' [] [] st0 = st0"
proof -
  let ?reply = "\<lparr>role = Assistant, content = ''ok''\<rparr>"
  let ?body = "chat_body [msg ''user'' ''hi'', msg ''assistant'' '''']"
  have valid: "zValidator ?body =
      Some (''c2'', [\<lparr>role = User, content = ''hi''\<rparr>, \<lparr>role = Assistant, content = ''''\<rparr>])"
    by (simp add: zValidator_def parse_role_def chat_body_def msg_def)
  have a: "user alice = Some \<lparr>user_id = Some ''A''\<rparr>" by (simp add: alice_def)
  have n: "signed_in_user_id (Some anonymous) = None"
    by (simp add: signed_in_user_id_def anonymous_def)
  show ?thesis
    using onFinish_persists_history
            [of alice "env_with [Finish [?reply]]" "''c2''" "[\<lparr>role = User, content = ''hi''\<rparr>]"
                "[?reply]" st0 ?body]
          onFinish_persists_history
            [of alice "env0\<lparr>rejects := (\<lambda>a. a = QSaveChat)\<rparr>" "''c2''" "[]" "[]" st0 ?body]
          onFinish_persists_history [of anonymous env0 "''c2''" "[]" "[]" st0 ?body]
          valid a n
    by (simp add: env_with_def env0_def)
qed

text \<open>
  C10: a chat POST whose session is not null but has no user, or a user without an id,
  is not answered with 401. The handler goes on to the streaming call on the filtered
  messages: a call that rejects is thrown on, and otherwise the response is the data
  stream with what the executors returned for the calls the model made, the same stream
  that any other session gets. Whatever the model does, no chat is saved.
\<close>

theorem chat_post_session_without_user:
  assumes nouser: "user s = None \<or> (\<exists>u. user s = Some u \<and> user_id u = None)"
    and valid: "zValidator body = Some (cid, ms)"
  shows "chat_post env st (Some s) body =
           (case streamText env (filter (\<lambda>m. content m \<noteq> []) ms) of
              None \<Rightarrow> (Inl Rejected, st)
            | Some evs \<Rightarrow>
                (Inr (DataStream
                   (fst (run_events env s cid (filter (\<lambda>m. content m \<noteq> []) ms) evs st))),
                 snd (run_events env s cid (filter (\<lambda>m. content m \<noteq> []) ms) evs st)))
       \<and> fst (chat_post env st (Some s) body) = fst (chat_post env st (Some s') body)
       \<and> status_of (fst (chat_post env st (Some s) body)) \<noteq> 401
       \<and> chats (snd (chat_post env st (Some s) body)) = chats st"
proof -
  have out: "signed_in_user_id (Some s) = None"
    using nouser by (auto simp: signed_in_user_id_None)
  have exact: "chat_post env st (Some s) body =
           (case streamText env (filter (\<lambda>m. content m \<noteq> []) ms) of
              None \<Rightarrow> (Inl Rejected, st)
            | Some evs \<Rightarrow>
                (Inr (DataStream
                   (fst (run_events env s cid (filter (\<lambda>m. content m \<noteq> []) ms) evs st))),
                 snd (run_events env s cid (filter (\<lambda>m. content m \<noteq> []) ms) evs st)))"
    using chat_post_valid [OF valid, of env st s] by simp
  have same: "fst (chat_post env st (Some s) body) = fst (chat_post env st (Some s') body)"
    using run_events_stream_indep [of st st env s cid _ _ s' cid]
    by (simp add: chat_post_valid [OF valid] split: option.splits)
  have rest: "status_of (fst (chat_post env st (Some s) body)) \<noteq> 401
       \<and> chats (snd (chat_post env st (Some s) body)) = chats st"
    by (rule chat_post_signed_out [OF out valid])
  from exact same rest show ?thesis by blast
qed

theorem chat_post_session_without_user_witness:
  "(user anonymous = None \<or> (\<exists>u. user anonymous = Some u \<and> user_id u = None))
   \<and> zValidator (chat_body [msg ''user'' ''paid?'']) =
       Some (''c2'', [\<lparr>role = User, content = ''paid?''\<rparr>])
   \<and> chat_post (env_with [ToolCall (CallVerifyPayment ''r1''),
                          Finish [\<lparr>role = Assistant, content = ''not yet''\<rparr>]])
        st0 (Some anonymous) (chat_body [msg ''user'' ''paid?'']) =
       (Inr (DataStream [Inr (PaymentStatus False)]), st0)
   \<and> fst (chat_post (env_with [ToolCall (CallVerifyPayment ''r1''),
                          Finish [\<lparr>role = Assistant, content = ''not yet''\<rparr>]])
        st0 (Some alice) (chat_body [msg ''user'' ''paid?''])) =
       Inr (DataStream [Inr (PaymentStatus False)])"
proof -
  let ?env = "env_with [ToolCall (CallVerifyPayment ''r1''),
                          Finish [\<lparr>role = Assistant, content = ''not yet''\<rparr>]]"
  have h1: "user anonymous = None \<or> (\<exists>u. user anonymous = Some u \<and> user_id u = None)"
    by (simp add: anonymous_def)
  have h2: "zValidator (chat_body [msg ''user'' ''paid?'']) =
       Some (''c2'', [\<lparr>role = User, content = ''paid?''\<rparr>])"
    by (simp add: zValidator_def parse_role_def chat_body_def msg_def)
  have run: "run_events ?env anonymous ''c2'' [\<lparr>role = User, content = ''paid?''\<rparr>]
        [ToolCall (CallVerifyPayment ''r1''), Finish [\<lparr>role = Assistant, content = ''not yet''\<rparr>]] st0
      = ([Inr (PaymentStatus False)], st0)"
    by (simp add: verifyPayment_execute_def getReservationById_def onFinish_def
        signed_in_user_id_def anonymous_def env_with_def st0_def r1_def)
  note t = chat_post_session_without_user [OF h1 h2, of ?env st0 alice]
  have a: "chat_post ?env st0 (Some anonymous) (chat_body [msg ''user'' ''paid?'']) =
       (Inr (DataStream [Inr (PaymentStatus False)]), st0)"
    using t run by (simp add: streamText_env_with)
  have e: "fst (chat_post ?env st0 (Some anonymous) (chat_body [msg ''user'' ''paid?''])) =
           fst (chat_post ?env st0 (Some alice) (chat_body [msg ''user'' ''paid?'']))"
    using t by blast
  have b: "fst (chat_post ?env st0 (Some alice) (chat_body [msg ''user'' ''paid?''])) =
       Inr (DataStream [Inr (PaymentStatus False)])"
    using a e [symmetric] by simp
  show ?thesis
    using h1 h2 a b by simp
qed

subsection \<open>Confirming a payment\<close>

text \<open>
  C9: a PATCH that passes the existence, ownership and not-yet-paid checks, with a body
  that has no string under \<open>magicWord\<close> (no such key, a value of another type, a body that
  is not an object or does not parse), is answered with the generic 500, and the state is
  left as it was.
\<close>

theorem patch_without_string_magicWord:
  assumes "rid \<noteq> []" and "user s = Some u"
    and "getReservationById env st rid = Inr (Some r)"
    and "Some (userId r) = user_id u"
    and "\<not> hasCompletedPayment r"
    and "\<not> (\<exists>kvs w. body = Some (JObj kvs) \<and> map_of kvs ''magicWord'' = Some (JStr w))"
  shows "reservation_patch env st (Some s) rid body =
           (Inl (HTTPException 500 ''An error occurred while processing your request!''), st)"
proof -
  have "\<exists>e. reservation_patch_try env st u rid body = (Inl e, st)"
  proof (cases body)
    case None
    then show ?thesis
      using assms by (simp add: reservation_patch_try_def req_json_def)
  next
    case (Some j)
    show ?thesis
    proof (cases j)
      case (JObj kvs)
      then have "call_toLowerCase (map_of kvs ''magicWord'') = Inl TypeError"
        using assms(6) Some by (cases "map_of kvs ''magicWord''" rule: call_toLowerCase.cases) auto
      then show ?thesis
        using assms Some JObj by (simp add: reservation_patch_try_def req_json_def)
    qed (use assms Some in \<open>simp_all add: reservation_patch_try_def req_json_def\<close>)
  qed
  then show ?thesis
    using assms by (auto simp: reservation_patch_def)
qed

theorem patch_without_string_magicWord_witness:
  "''r1'' \<noteq> [] \<and> user alice = Some \<lparr>user_id = Some ''A''\<rparr>
   \<and> getReservationById env0 st0 ''r1'' = Inr (Some r1)
   \<and> Some (userId r1) = user_id \<lparr>user_id = Some ''A''\<rparr>
   \<and> \<not> hasCompletedPayment r1
   \<and> reservation_patch env0 st0 (Some alice) ''r1'' (Some (JObj [(''magicWord'', JNum 7)])) =
       (Inl (HTTPException 500 ''An error occurred while processing your request!''), st0)"
proof -
  have h1: "''r1'' \<noteq> []" by simp
  have h2: "user alice = Some \<lparr>user_id = Some ''A''\<rparr>" by (simp add: alice_def)
  have h3: "getReservationById env0 st0 ''r1'' = Inr (Some r1)"
    by (simp add: getReservationById_def env0_def env_with_def st0_def)
  have h4: "Some (userId r1) = user_id \<lparr>user_id = Some ''A''\<rparr>" by (simp add: r1_def)
  have h5: "\<not> hasCompletedPayment r1" by (simp add: r1_def)
  have h6: "\<not> (\<exists>kvs w. Some (JObj [(''magicWord'', JNum 7)]) = Some (JObj kvs)
              \<and> map_of kvs ''magicWord'' = Some (JStr w))"
    by auto
  show ?thesis
    using h1 h2 h3 h4 h5 patch_without_string_magicWord [OF h1 h2 h3 h4 h5 h6] by simp
qed

text \<open>
  C5: given a session with a user, the PATCH handler checks, in this order, that the
  reservation exists, that it belongs to the session user, that it is not paid yet, and
  only then reads the body and compares the lower-cased magic word with \<open>vercel\<close>. The
  first check that fails decides what the \<open>try\<close> block throws (404, 401, 409, 400 in
  that order) and fixes the result of the handler, the 500 of the \<open>catch\<close> clause with
  the state as it was, whatever a later check would find: for a missing, foreign or paid
  reservation it is the same for every body. When all four checks pass and the update
  does not reject, the flag is set and the updated reservation is returned.
\<close>

theorem patch_checks_in_order:
  "(getReservationById env st rid = Inr None \<longrightarrow>
      reservation_patch_try env st u rid body =
        (Inl (HTTPException 404 ''Reservation not found!''), st))
   \<and> (\<forall>r. getReservationById env st rid = Inr (Some r) \<and> Some (userId r) \<noteq> user_id u \<longrightarrow>
      reservation_patch_try env st u rid body = (Inl (HTTPException 401 ''Unauthorized!''), st))
   \<and> (\<forall>r. getReservationById env st rid = Inr (Some r) \<and> Some (userId r) = user_id u
          \<and> hasCompletedPayment r \<longrightarrow>
      reservation_patch_try env st u rid body =
        (Inl (HTTPException 409 ''Reservation is already paid!''), st))
   \<and> (\<forall>r kvs w. getReservationById env st rid = Inr (Some r) \<and> Some (userId r) = user_id u
          \<and> \<not> hasCompletedPayment r \<and> body = Some (JObj kvs)
          \<and> map_of kvs ''magicWord'' = Some (JStr w) \<and> toLowerCase w \<noteq> ''vercel'' \<longrightarrow>
      reservation_patch_try env st u rid body =
        (Inl (HTTPException 400 ''Invalid magic word!''), st))
   \<and> (rid \<noteq> [] \<and> (getReservationById env st rid = Inr None
        \<or> (\<exists>r. getReservationById env st rid = Inr (Some r)
               \<and> (Some (userId r) \<noteq> user_id u \<or> hasCompletedPayment r))) \<longrightarrow>
      reservation_patch env st (Some \<lparr>user = Some u\<rparr>) rid body =
        (Inl (HTTPException 500 ''An error occurred while processing your request!''), st))
   \<and> (\<forall>r kvs w. rid \<noteq> [] \<and> getReservationById env st rid = Inr (Some r)
          \<and> Some (userId r) = user_id u \<and> \<not> hasCompletedPayment r \<and> body = Some (JObj kvs)
          \<and> map_of kvs ''magicWord'' = Some (JStr w) \<and> toLowerCase w \<noteq> ''vercel'' \<longrightarrow>
      reservation_patch env st (Some \<lparr>user = Some u\<rparr>) rid body =
        (Inl (HTTPException 500 ''An error occurred while processing your request!''), st))
   \<and> (\<forall>r kvs w. rid \<noteq> [] \<and> getReservationById env st rid = Inr (Some r)
          \<and> Some (userId r) = user_id u \<and> \<not> hasCompletedPayment r \<and> body = Some (JObj kvs)
          \<and> map_of kvs ''magicWord'' = Some (JStr w) \<and> toLowerCase w = ''vercel''
          \<and> \<not> rejects env QUpdateReservation \<longrightarrow>
      reservation_patch env st (Some \<lparr>user = Some u\<rparr>) rid body =
        (Inr (JsonReservation (Some (r\<lparr>hasCompletedPayment := True\<rparr>))),
         st\<lparr>reservations := (reservations st)(rid \<mapsto> r\<lparr>hasCompletedPayment := True\<rparr>)\<rparr>))"
proof -
  have missing: "getReservationById env st rid = Inr None \<longrightarrow>
      reservation_patch_try env st u rid body =
        (Inl (HTTPException 404 ''Reservation not found!''), st)"
    by (simp add: reservation_patch_try_def)
  have foreign: "\<forall>r. getReservationById env st rid = Inr (Some r) \<and> Some (userId r) \<noteq> user_id u \<longrightarrow>
      reservation_patch_try env st u rid body = (Inl (HTTPException 401 ''Unauthorized!''), st)"
    by (simp add: reservation_patch_try_def)
  have paid: "\<forall>r. getReservationById env st rid = Inr (Some r) \<and> Some (userId r) = user_id u
          \<and> hasCompletedPayment r \<longrightarrow>
      reservation_patch_try env st u rid body =
        (Inl (HTTPException 409 ''Reservation is already paid!''), st)"
    by (simp add: reservation_patch_try_def)
  have word: "\<forall>r kvs w. getReservationById env st rid = Inr (Some r) \<and> Some (userId r) = user_id u
          \<and> \<not> hasCompletedPayment r \<and> body = Some (JObj kvs)
          \<and> map_of kvs ''magicWord'' = Some (JStr w) \<and> toLowerCase w \<noteq> ''vercel'' \<longrightarrow>
      reservation_patch_try env st u rid body =
        (Inl (HTTPException 400 ''Invalid magic word!''), st)"
    by (simp add: reservation_patch_try_def req_json_def)
  have early: "rid \<noteq> [] \<and> (getReservationById env st rid = Inr None
        \<or> (\<exists>r. getReservationById env st rid = Inr (Some r)
               \<and> (Some (userId r) \<noteq> user_id u \<or> hasCompletedPayment r))) \<longrightarrow>
      reservation_patch env st (Some \<lparr>user = Some u\<rparr>) rid body =
        (Inl (HTTPException 500 ''An error occurred while processing your request!''), st)"
    by (auto simp: reservation_patch_catch reservation_patch_try_def)
  have refused: "\<forall>r kvs w. rid \<noteq> [] \<and> getReservationById env st rid = Inr (Some r)
          \<and> Some (userId r) = user_id u \<and> \<not> hasCompletedPayment r \<and> body = Some (JObj kvs)
          \<and> map_of kvs ''magicWord'' = Some (JStr w) \<and> toLowerCase w \<noteq> ''vercel'' \<longrightarrow>
      reservation_patch env st (Some \<lparr>user = Some u\<rparr>) rid body =
        (Inl (HTTPException 500 ''An error occurred while processing your request!''), st)"
    using word by (auto simp: reservation_patch_catch)
  have flipped: "\<forall>r kvs w. rid \<noteq> [] \<and> getReservationById env st rid = Inr (Some r)
          \<and> Some (userId r) = user_id u \<and> \<not> hasCompletedPayment r \<and> body = Some (JObj kvs)
          \<and> map_of kvs ''magicWord'' = Some (JStr w) \<and> toLowerCase w = ''vercel''
          \<and> \<not> rejects env QUpdateReservation \<longrightarrow>
      reservation_patch env st (Some \<lparr>user = Some u\<rparr>) rid body =
        (Inr (JsonReservation (Some (r\<lparr>hasCompletedPayment := True\<rparr>))),
         st\<lparr>reservations := (reservations st)(rid \<mapsto> r\<lparr>hasCompletedPayment := True\<rparr>)\<rparr>)"
    by (auto simp: reservation_patch_catch reservation_patch_try_def req_json_def
        getReservationById_def updateReservation_def Let_def split: if_splits)
  from missing foreign paid word early refused flipped show ?thesis by blast
qed

theorem patch_checks_in_order_witness:
  "reservation_patch_try env0 st0 \<lparr>user_id = Some ''A''\<rparr> ''r9'' (magic ''vercel'') =
       (Inl (HTTPException 404 ''Reservation not found!''), st0)
   \<and> reservation_patch_try env0 st_paid \<lparr>user_id = Some ''B''\<rparr> ''r1'' (magic ''nope'') =
       (Inl (HTTPException 401 ''Unauthorized!''), st_paid)
   \<and> reservation_patch_try env0 st_paid \<lparr>user_id = Some ''A''\<rparr> ''r1'' (magic ''nope'') =
       (Inl (HTTPException 409 ''Reservation is already paid!''), st_paid)
   \<and> reservation_patch_try env0 st0 \<lparr>user_id = Some ''A''\<rparr> ''r1'' (magic ''nope'') =
       (Inl (HTTPException 400 ''Invalid magic word!''), st0)
   \<and> reservation_patch env0 st0 (Some \<lparr>user = Some \<lparr>user_id = Some ''A''\<rparr>\<rparr>) ''r9''
        (magic ''vercel'') =
       (Inl (HTTPException 500 ''An error occurred while processing your request!''), st0)
   \<and> reservation_patch env0 st_paid (Some \<lparr>user = Some \<lparr>user_id = Some ''B''\<rparr>\<rparr>) ''r1''
        (magic ''nope'') =
       (Inl (HTTPException 500 ''An error occurred while processing your request!''), st_paid)
   \<and> reservation_patch env0 st_paid (Some \<lparr>user = Some \<lparr>user_id = Some ''A''\<rparr>\<rparr>) ''r1''
        (magic ''nope'') =
       (Inl (HTTPException 500 ''An error occurred while processing your request!''), st_paid)
   \<and> reservation_patch env0 st0 (Some \<lparr>user = Some \<lparr>user_id = Some ''A''\<rparr>\<rparr>) ''r1''
        (magic ''nope'') =
       (Inl (HTTPException 500 ''An error occurred while processing your request!''), st0)
   \<and> reservation_patch env0 st0 (Some \<lparr>user = Some \<lparr>user_id = Some ''A''\<rparr>\<rparr>) ''r1''
        (magic ''VERCEL'') =
       (Inr (JsonReservation (Some (r1\<lparr>hasCompletedPayment := True\<rparr>))),
        st0\<lparr>reservations := (reservations st0)(''r1'' \<mapsto> r1\<lparr>hasCompletedPayment := True\<rparr>)\<rparr>)"
proof -
  have ok: "\<not> rejects env0 QUpdateReservation"
    by (simp add: env0_def env_with_def)
  show ?thesis
    using patch_checks_in_order [of env0 st0 "''r9''" "\<lparr>user_id = Some ''A''\<rparr>" "magic ''vercel''"]
          patch_checks_in_order [of env0 st_paid "''r1''" "\<lparr>user_id = Some ''B''\<rparr>" "magic ''nope''"]
          patch_checks_in_order [of env0 st_paid "''r1''" "\<lparr>user_id = Some ''A''\<rparr>" "magic ''nope''"]
          patch_checks_in_order [of env0 st0 "''r1''" "\<lparr>user_id = Some ''A''\<rparr>" "magic ''nope''"]
          patch_checks_in_order [of env0 st0 "''r1''" "\<lparr>user_id = Some ''A''\<rparr>" "magic ''VERCEL''"]
          ok
    by (simp add: fixture_lookups toLowerCase_examples r1_def magic_def)
qed

text \<open>
  C2: Alice, signed in, sends PATCH \<open>/r1\<close> for her reservation, which is paid, with the
  right magic word. The answer is 401: on \<open>/:id\<close> the session was never set, and the guard
  throws before the \<open>try\<close> block is entered. Nor is 409 the answer of the handler for any
  session, state and body, since the \<open>catch\<close> clause throws 500 for whatever the block
  threw. The stored flag stays true.
\<close>

theorem patch_paid_never_409:
  "auth env0 = Some alice
   \<and> reservations st_paid ''r1'' = Some (r1\<lparr>hasCompletedPayment := True\<rparr>) \<and> userId r1 = ''A''
   \<and> reservation_app env0 st_paid PATCH [''r1''] (magic ''vercel'') =
       Some (Inl (HTTPException 401 ''Unauthorized!''), st_paid)
   \<and> status_of (fst (reservation_patch env st sess rid body)) \<noteq> 409"
proof -
  have "reservation_app env0 st_paid PATCH [''r1''] (magic ''vercel'') =
       Some (Inl (HTTPException 401 ''Unauthorized!''), st_paid)"
    by (rule param_routes_unauthorized) simp
  moreover have "status_of (fst (reservation_patch env st sess rid body)) \<noteq> 409"
    using reservation_patch_statuses [of env st sess rid body] by auto
  ultimately show ?thesis
    by (simp add: env0_def env_with_def st_paid_def r1_def)
qed

text \<open>
  C3: Alice, signed in, sends PATCH \<open>/r1\<close> for her unpaid reservation. With \<open>VERCEL\<close>,
  \<open>vercel\<close> or \<open>Vercel\<close> as with another word the answer is 401 and the flag is not set,
  the session never being set on \<open>/:id\<close>. Nor is 400 the answer of the handler for any
  session, state and body.
\<close>

theorem patch_magic_word_never_400:
  "auth env0 = Some alice \<and> reservations st0 ''r1'' = Some r1
   \<and> userId r1 = ''A'' \<and> \<not> hasCompletedPayment r1
   \<and> reservation_app env0 st0 PATCH [''r1''] (magic ''VERCEL'') =
       Some (Inl (HTTPException 401 ''Unauthorized!''), st0)
   \<and> reservation_app env0 st0 PATCH [''r1''] (magic ''vercel'') =
       Some (Inl (HTTPException 401 ''Unauthorized!''), st0)
   \<and> reservation_app env0 st0 PATCH [''r1''] (magic ''Vercel'') =
       Some (Inl (HTTPException 401 ''Unauthorized!''), st0)
   \<and> reservation_app env0 st0 PATCH [''r1''] (magic ''nope'') =
       Some (Inl (HTTPException 401 ''Unauthorized!''), st0)
   \<and> status_of (fst (reservation_patch env st sess rid body)) \<noteq> 400"
proof -
  have routed: "reservation_app env0 st0 PATCH [''r1''] b =
       Some (Inl (HTTPException 401 ''Unauthorized!''), st0)" for b
    by (rule param_routes_unauthorized) simp
  have "status_of (fst (reservation_patch env st sess rid body)) \<noteq> 400"
    using reservation_patch_statuses [of env st sess rid body] by auto
  then show ?thesis
    using routed by (simp add: env0_def env_with_def st0_def r1_def)
qed

subsection \<open>Ownership\<close>




subsection \<open>Requests without a session\<close>

text \<open>
  C4, as stated, fails for chat POST: with a session that has no user the request is
  served (status 200), and with no session but a body the schema refuses, the answer is
  the validator's 400.
\<close>

theorem session_guard_counterexample:
  "user anonymous = None
   \<and> chat_post env0 st0 (Some anonymous) (chat_body [msg ''user'' ''hi'']) =
       (Inr (DataStream []), st0)
   \<and> status_of (fst (chat_post env0 st0 (Some anonymous) (chat_body [msg ''user'' ''hi'']))) = 200
   \<and> status_of (fst (chat_post env0 st0 None (chat_body [msg ''robot'' ''hi'']))) = 400"
  by (simp add: chat_post_def zValidator_def parse_role_def convertToCoreMessages_def
      anonymous_def env_with_def env0_def msg_def chat_body_def)

text \<open>
  C4, amended: a chat POST whose body the schema refuses is answered 400 by the
  validator, whatever the session. With no session, chat POST with an accepted body is
  answered 401; chat DELETE, reservation GET and reservation PATCH are answered 401 with
  no session and with a session that has no user. Chat POST with a session that has no
  user is not answered 401: it goes on to the streaming call and answers with the stream
  of what the executors returned. In every one of these cases nothing is stored: no chat
  is saved, and no reservation is created or updated, the createReservation executor
  finding the same session without a user when it asks again.
\<close>

theorem requests_without_session:
  "(zValidator body = None \<longrightarrow>
      chat_post env st sess body = (Inr ValidationFailed, st)
      \<and> status_of (fst (chat_post env st sess body)) = 400)
   \<and> (\<forall>v. zValidator body = Some v \<longrightarrow>
      chat_post env st None body = (Inl (HTTPException 401 ''Unauthorized''), st))
   \<and> (rid \<noteq> [] \<and> (sess = None \<or> (\<exists>s. sess = Some s \<and> user s = None)) \<longrightarrow>
      chat_delete env st sess rid = (Inl (HTTPException 401 ''Unauthorized''), st)
      \<and> reservation_get env st sess rid = (Inl (HTTPException 401 ''Unauthorized!''), st)
      \<and> reservation_patch env st sess rid pbody = (Inl (HTTPException 401 ''Unauthorized!''), st))
   \<and> (\<forall>s cid ms. user s = None \<and> zValidator body = Some (cid, ms) \<longrightarrow>
      chat_post env st (Some s) body =
        (case streamText env (filter (\<lambda>m. content m \<noteq> []) ms) of
           None \<Rightarrow> (Inl Rejected, st)
         | Some evs \<Rightarrow>
             (Inr (DataStream
                (fst (run_events env s cid (filter (\<lambda>m. content m \<noteq> []) ms) evs st))),
              snd (run_events env s cid (filter (\<lambda>m. content m \<noteq> []) ms) evs st)))
      \<and> status_of (fst (chat_post env st (Some s) body)) \<noteq> 401
      \<and> chats (snd (chat_post env st (Some s) body)) = chats st
      \<and> (signed_in_user_id (auth env) = None \<longrightarrow>
           snd (chat_post env st (Some s) body) = st))
   \<and> (\<forall>s cid ms. auth env = Some s \<and> user s = None \<and> zValidator body = Some (cid, ms) \<longrightarrow>
      chat_app env st POST [] body =
        Some (case streamText env (filter (\<lambda>m. content m \<noteq> []) ms) of
                None \<Rightarrow> (Inl Rejected, st)
              | Some evs \<Rightarrow>
                  (Inr (DataStream
                     (fst (run_events env s cid (filter (\<lambda>m. content m \<noteq> []) ms) evs st))),
                   st)))
   \<and> (\<forall>v. auth env = None \<and> zValidator body = Some v \<longrightarrow>
      chat_app env st POST [] body = Some (Inl (HTTPException 401 ''Unauthorized''), st))
   \<and> (rid \<noteq> [] \<longrightarrow>
      chat_app env st DELETE [rid] pbody = Some (Inl (HTTPException 401 ''Unauthorized''), st)
      \<and> reservation_app env st GET [rid] pbody =
          Some (Inl (HTTPException 401 ''Unauthorized!''), st)
      \<and> reservation_app env st PATCH [rid] pbody =
          Some (Inl (HTTPException 401 ''Unauthorized!''), st))"
proof -
  have refused: "zValidator body = None \<longrightarrow>
      chat_post env st sess body = (Inr ValidationFailed, st)
      \<and> status_of (fst (chat_post env st sess body)) = 400"
    by (simp add: chat_post_def)
  have post: "\<forall>v. zValidator body = Some v \<longrightarrow>
      chat_post env st None body = (Inl (HTTPException 401 ''Unauthorized''), st)"
    by (auto simp: chat_post_def)
  have by_id: "rid \<noteq> [] \<and> (sess = None \<or> (\<exists>s. sess = Some s \<and> user s = None)) \<longrightarrow>
      chat_delete env st sess rid = (Inl (HTTPException 401 ''Unauthorized''), st)
      \<and> reservation_get env st sess rid = (Inl (HTTPException 401 ''Unauthorized!''), st)
      \<and> reservation_patch env st sess rid pbody = (Inl (HTTPException 401 ''Unauthorized!''), st)"
    by (auto simp: chat_delete_def reservation_get_def reservation_patch_def)
  have quiet: "snd (chat_post env st (Some s) body) = st"
    if "user s = None" and "zValidator body = Some (cid, ms)"
      and "signed_in_user_id (auth env) = None" for s cid ms
  proof -
    have out: "signed_in_user_id (Some s) = None"
      using that(1) by (simp add: signed_in_user_id_None)
    show ?thesis
      using run_events_signed_out_state [OF out that(3), of cid]
      by (simp add: chat_post_valid [OF that(2)] split: option.splits)
  qed
  have no_user: "\<forall>s cid ms. user s = None \<and> zValidator body = Some (cid, ms) \<longrightarrow>
      chat_post env st (Some s) body =
        (case streamText env (filter (\<lambda>m. content m \<noteq> []) ms) of
           None \<Rightarrow> (Inl Rejected, st)
         | Some evs \<Rightarrow>
             (Inr (DataStream
                (fst (run_events env s cid (filter (\<lambda>m. content m \<noteq> []) ms) evs st))),
              snd (run_events env s cid (filter (\<lambda>m. content m \<noteq> []) ms) evs st)))
      \<and> status_of (fst (chat_post env st (Some s) body)) \<noteq> 401
      \<and> chats (snd (chat_post env st (Some s) body)) = chats st
      \<and> (signed_in_user_id (auth env) = None \<longrightarrow>
           snd (chat_post env st (Some s) body) = st)"
  proof (intro allI impI, elim conjE)
    fix s :: session and cid ms
    assume u: "user s = None" and v: "zValidator body = Some (cid, ms)"
    have out: "signed_in_user_id (Some s) = None"
      using u by (simp add: signed_in_user_id_None)
    show "chat_post env st (Some s) body =
        (case streamText env (filter (\<lambda>m. content m \<noteq> []) ms) of
           None \<Rightarrow> (Inl Rejected, st)
         | Some evs \<Rightarrow>
             (Inr (DataStream
                (fst (run_events env s cid (filter (\<lambda>m. content m \<noteq> []) ms) evs st))),
              snd (run_events env s cid (filter (\<lambda>m. content m \<noteq> []) ms) evs st)))
      \<and> status_of (fst (chat_post env st (Some s) body)) \<noteq> 401
      \<and> chats (snd (chat_post env st (Some s) body)) = chats st
      \<and> (signed_in_user_id (auth env) = None \<longrightarrow>
           snd (chat_post env st (Some s) body) = st)"
      using chat_post_valid [OF v, of env st s] chat_post_signed_out [OF out v, of env st]
        quiet [OF u v]
      by blast
  qed
  have routed_post: "\<forall>s cid ms. auth env = Some s \<and> user s = None
        \<and> zValidator body = Some (cid, ms) \<longrightarrow>
      chat_app env st POST [] body =
        Some (case streamText env (filter (\<lambda>m. content m \<noteq> []) ms) of
                None \<Rightarrow> (Inl Rejected, st)
              | Some evs \<Rightarrow>
                  (Inr (DataStream
                     (fst (run_events env s cid (filter (\<lambda>m. content m \<noteq> []) ms) evs st))),
                   st))"
  proof (intro allI impI, elim conjE)
    fix s cid ms
    assume a: "auth env = Some s" and u: "user s = None"
      and v: "zValidator body = Some (cid, ms)"
    have out: "signed_in_user_id (Some s) = None"
      using u by (simp add: signed_in_user_id_None)
    then have out': "signed_in_user_id (auth env) = None"
      using a by simp
    show "chat_app env st POST [] body =
        Some (case streamText env (filter (\<lambda>m. content m \<noteq> []) ms) of
                None \<Rightarrow> (Inl Rejected, st)
              | Some evs \<Rightarrow>
                  (Inr (DataStream
                     (fst (run_events env s cid (filter (\<lambda>m. content m \<noteq> []) ms) evs st))),
                   st))"
      using a run_events_signed_out_state [OF out out', of cid]
      by (simp add: chat_app_post chat_post_valid [OF v] split: option.splits)
  qed
  have routed_none: "\<forall>v. auth env = None \<and> zValidator body = Some v \<longrightarrow>
      chat_app env st POST [] body = Some (Inl (HTTPException 401 ''Unauthorized''), st)"
    using post by (simp add: chat_app_post)
  have routed_id: "rid \<noteq> [] \<longrightarrow>
      chat_app env st DELETE [rid] pbody = Some (Inl (HTTPException 401 ''Unauthorized''), st)
      \<and> reservation_app env st GET [rid] pbody =
          Some (Inl (HTTPException 401 ''Unauthorized!''), st)
      \<and> reservation_app env st PATCH [rid] pbody =
          Some (Inl (HTTPException 401 ''Unauthorized!''), st)"
    by (simp add: param_routes_unauthorized)
  from refused post by_id no_user routed_post routed_none routed_id show ?thesis
    by blast
qed

theorem requests_without_session_witness:
  "chat_post env0 st0 None (chat_body [msg ''robot'' ''hi'']) = (Inr ValidationFailed, st0)
   \<and> chat_post env0 st0 None (chat_body [msg ''user'' ''hi'']) =
       (Inl (HTTPException 401 ''Unauthorized''), st0)
   \<and> chat_delete env0 st0 None ''c1'' = (Inl (HTTPException 401 ''Unauthorized''), st0)
   \<and> reservation_get env0 st0 (Some anonymous) ''r1'' =
       (Inl (HTTPException 401 ''Unauthorized!''), st0)
   \<and> reservation_patch env0 st0 (Some anonymous) ''r1'' (magic ''vercel'') =
       (Inl (HTTPException 401 ''Unauthorized!''), st0)
   \<and> chat_app ((env_with [ToolCall (CallCreateReservation props0),
                           Finish [\<lparr>role = Assistant, content = ''sign in''\<rparr>]])
                  \<lparr>auth := Some anonymous\<rparr>)
        st0 POST [] (chat_body [msg ''user'' ''book'']) =
       Some (Inr (DataStream
               [Inr (ErrorResult ''User is not signed in to perform this action!'')]), st0)
   \<and> chat_app (env0\<lparr>auth := None\<rparr>) st0 POST [] (chat_body [msg ''user'' ''hi'']) =
       Some (Inl (HTTPException 401 ''Unauthorized''), st0)
   \<and> chat_app (env0\<lparr>auth := None\<rparr>) st0 DELETE [''c1''] None =
       Some (Inl (HTTPException 401 ''Unauthorized''), st0)
   \<and> reservation_app (env0\<lparr>auth := None\<rparr>) st0 GET [''r1''] None =
       Some (Inl (HTTPException 401 ''Unauthorized!''), st0)
   \<and> reservation_app (env0\<lparr>auth := None\<rparr>) st0 PATCH [''r1''] (magic ''vercel'') =
       Some (Inl (HTTPException 401 ''Unauthorized!''), st0)"
proof -
  let ?book = "chat_body [msg ''user'' ''book'']"
  let ?evs = "[ToolCall (CallCreateReservation props0),
               Finish [\<lparr>role = Assistant, content = ''sign in''\<rparr>]]"
  let ?env = "(env_with ?evs)\<lparr>auth := Some anonymous\<rparr>"
  have bad: "zValidator (chat_body [msg ''robot'' ''hi'']) = None"
    by (simp add: zValidator_def parse_role_def chat_body_def msg_def)
  have good: "zValidator (chat_body [msg ''user'' ''hi'']) =
      Some (''c2'', [\<lparr>role = User, content = ''hi''\<rparr>])"
    by (simp add: zValidator_def parse_role_def chat_body_def msg_def)
  have book: "zValidator ?book = Some (''c2'', [\<lparr>role = User, content = ''book''\<rparr>])"
    by (simp add: zValidator_def parse_role_def chat_body_def msg_def)
  have anon: "user anonymous = None" by (simp add: anonymous_def)
  have c1: "chat_post env0 st0 None (chat_body [msg ''robot'' ''hi'']) =
              (Inr ValidationFailed, st0)"
    using requests_without_session [of "chat_body [msg ''robot'' ''hi'']" env0 st0 None] bad
    by simp
  have c2: "chat_post env0 st0 None (chat_body [msg ''user'' ''hi'']) =
       (Inl (HTTPException 401 ''Unauthorized''), st0)"
    using requests_without_session [of "chat_body [msg ''user'' ''hi'']" env0 st0] good
    by simp
  have c3: "chat_delete env0 st0 None ''c1'' = (Inl (HTTPException 401 ''Unauthorized''), st0)"
    using requests_without_session [of _ env0 st0 None "''c1''"] by simp
  have c4: "reservation_get env0 st0 (Some anonymous) ''r1'' =
       (Inl (HTTPException 401 ''Unauthorized!''), st0)
     \<and> reservation_patch env0 st0 (Some anonymous) ''r1'' (magic ''vercel'') =
       (Inl (HTTPException 401 ''Unauthorized!''), st0)"
    using requests_without_session [of _ env0 st0 "Some anonymous" "''r1''" "magic ''vercel''"]
      anon
    by simp
  have run: "fst (run_events ?env anonymous ''c2'' [\<lparr>role = User, content = ''book''\<rparr>] ?evs st0) =
      [Inr (ErrorResult ''User is not signed in to perform this action!'')]"
    by (simp add: createReservation_execute_def signed_in_user_id_def anonymous_def
        env_with_def Let_def onFinish_def split: prod.splits)
  have c5: "chat_app ?env st0 POST [] ?book =
       Some (Inr (DataStream
               [Inr (ErrorResult ''User is not signed in to perform this action!'')]), st0)"
    using requests_without_session [of ?book ?env st0] book anon run
    by (simp add: env_with_def)
  have c6: "chat_app (env0\<lparr>auth := None\<rparr>) st0 POST [] (chat_body [msg ''user'' ''hi'']) =
       Some (Inl (HTTPException 401 ''Unauthorized''), st0)"
    using requests_without_session [of "chat_body [msg ''user'' ''hi'']" "env0\<lparr>auth := None\<rparr>" st0]
      good
    by simp
  have c7: "chat_app (env0\<lparr>auth := None\<rparr>) st0 DELETE [''c1''] None =
       Some (Inl (HTTPException 401 ''Unauthorized''), st0)"
    using requests_without_session [of _ "env0\<lparr>auth := None\<rparr>" st0 _ "''c1''" None]
    by simp
  have c8: "reservation_app (env0\<lparr>auth := None\<rparr>) st0 GET [''r1''] None =
       Some (Inl (HTTPException 401 ''Unauthorized!''), st0)"
    using requests_without_session [of _ "env0\<lparr>auth := None\<rparr>" st0 _ "''r1''" None]
    by simp
  have c9: "reservation_app (env0\<lparr>auth := None\<rparr>) st0 PATCH [''r1''] (magic ''vercel'') =
       Some (Inl (HTTPException 401 ''Unauthorized!''), st0)"
    using requests_without_session [of _ "env0\<lparr>auth := None\<rparr>" st0 _ "''r1''" "magic ''vercel''"]
    by simp
  from c1 c2 c3 c4 c5 c6 c7 c8 c9 show ?thesis by simp
qed

subsection \<open>Validating and filtering the messages\<close>

text \<open>
  C6, as stated, fails on a message with empty text: the schema accepts it, and the
  request is served.
\<close>

theorem empty_text_passes_schema:
  "zValidator (chat_body [msg ''user'' '''']) = Some (''c2'', [\<lparr>role = User, content = ''''\<rparr>])
   \<and> chat_post env0 st0 (Some alice) (chat_body [msg ''user'' '''']) = (Inr (DataStream []), st0)"
  by (simp add: chat_post_def zValidator_def parse_role_def convertToCoreMessages_def
      chat_body_def msg_def env0_def env_with_def)

text \<open>
  C6, amended: the body is accepted exactly when it is an object with a string \<open>id\<close> and
  a list \<open>messages\<close> of objects with role \<open>user\<close> or \<open>assistant\<close> and a string content,
  empty or not. Any other body is answered by the validator, whatever the session, with
  the state untouched. For an accepted body the streaming call is made on, and \<open>onFinish\<close>
  closes over, the messages whose content is not empty, in their order.
\<close>

theorem chat_post_validation:
  "(zValidator body \<noteq> None \<longleftrightarrow> (\<exists>j. body = Some j \<and> spec_well_formed_body j))
   \<and> (zValidator body = None \<longrightarrow> chat_post env st sess body = (Inr ValidationFailed, st))
   \<and> (\<forall>cid ms s. zValidator body = Some (cid, ms) \<longrightarrow>
        chat_post env st (Some s) body =
          (case streamText env (filter (\<lambda>m. content m \<noteq> []) ms) of
             None \<Rightarrow> (Inl Rejected, st)
           | Some evs \<Rightarrow>
               (Inr (DataStream
                  (fst (run_events env s cid (filter (\<lambda>m. content m \<noteq> []) ms) evs st))),
                snd (run_events env s cid (filter (\<lambda>m. content m \<noteq> []) ms) evs st))))"
proof -
  have accepts: "zValidator body \<noteq> None \<longleftrightarrow> (\<exists>j. body = Some j \<and> spec_well_formed_body j)"
    using schema_accepts by (cases body) (simp_all add: zValidator_def)
  have rejected: "zValidator body = None \<longrightarrow> chat_post env st sess body = (Inr ValidationFailed, st)"
    by (simp add: chat_post_def)
  have filtered: "\<forall>cid ms s. zValidator body = Some (cid, ms) \<longrightarrow>
        chat_post env st (Some s) body =
          (case streamText env (filter (\<lambda>m. content m \<noteq> []) ms) of
             None \<Rightarrow> (Inl Rejected, st)
           | Some evs \<Rightarrow>
               (Inr (DataStream
                  (fst (run_events env s cid (filter (\<lambda>m. content m \<noteq> []) ms) evs st))),
                snd (run_events env s cid (filter (\<lambda>m. content m \<noteq> []) ms) evs st)))"
    using chat_post_valid by blast
  from accepts rejected filtered show ?thesis by blast
qed

theorem chat_post_validation_witness:
  "zValidator (chat_body [msg ''user'' ''hi'', msg ''assistant'' '''']) \<noteq> None
   \<and> chat_post env0 st0 (Some alice) (chat_body [msg ''robot'' ''hi'']) =
       (Inr ValidationFailed, st0)
   \<and> chat_post (env0\<lparr>streamText :=
          (\<lambda>ms. if ms = [\<lparr>role = User, content = ''hi''\<rparr>] then Some [] else None)\<rparr>)
        st0 (Some alice) (chat_body [msg ''user'' ''hi'', msg ''assistant'' '''']) =
       (Inr (DataStream []), st0)"
proof -
  let ?good = "chat_body [msg ''user'' ''hi'', msg ''assistant'' '''']"
  let ?bad = "chat_body [msg ''robot'' ''hi'']"
  have valid: "zValidator ?good =
      Some (''c2'', [\<lparr>role = User, content = ''hi''\<rparr>, \<lparr>role = Assistant, content = ''''\<rparr>])"
    by (simp add: zValidator_def parse_role_def chat_body_def msg_def)
  have invalid: "zValidator ?bad = None"
    by (simp add: zValidator_def parse_role_def chat_body_def msg_def)
  show ?thesis
    using chat_post_validation [of ?good env0 st0 "Some alice"]
          chat_post_validation [of ?bad env0 st0 "Some alice"]
          chat_post_validation [of ?good "env0\<lparr>streamText :=
              (\<lambda>ms. if ms = [\<lparr>role = User, content = ''hi''\<rparr>] then Some [] else None)\<rparr>"
              st0 "Some alice"]
          valid invalid
    by simp
qed

subsection \<open>Creating a reservation\<close>

text \<open>
  C7: once the price is computed, the createReservation executor stores a reservation
  exactly when the session resolved again has a user with an id (a non-empty string): it
  is stored unpaid under that user id and the new identifier, and returned with the
  arguments and the price, provided the insert does not reject. Without such a user the
  executor returns the "not signed in" error value, and the state is as before.
\<close>

theorem createReservation_execute_signed_in:
  "(\<forall>price s u uid. generateReservationPrice env p = Inr price \<and> auth env = Some s
        \<and> user s = Some u \<and> user_id u = Some uid \<and> uid \<noteq> []
        \<and> \<not> rejects env QCreateReservation \<longrightarrow>
      createReservation_execute env st p =
        (Inr (ReservationCreated (generateUUID env) p price),
         st\<lparr>reservations := (reservations st)(generateUUID env \<mapsto>
              \<lparr>reservation_id = generateUUID env, userId = uid, hasCompletedPayment = False,
               reservation_details = \<lparr>props = p, totalPriceInUSD = price\<rparr>\<rparr>)\<rparr>))
   \<and> (\<forall>price. generateReservationPrice env p = Inr price
        \<and> signed_in_user_id (auth env) = None \<longrightarrow>
      createReservation_execute env st p =
        (Inr (ErrorResult ''User is not signed in to perform this action!''), st))
   \<and> (signed_in_user_id (auth env) = None \<longrightarrow> snd (createReservation_execute env st p) = st)"
proof -
  have stored: "\<forall>price s u uid. generateReservationPrice env p = Inr price \<and> auth env = Some s
        \<and> user s = Some u \<and> user_id u = Some uid \<and> uid \<noteq> []
        \<and> \<not> rejects env QCreateReservation \<longrightarrow>
      createReservation_execute env st p =
        (Inr (ReservationCreated (generateUUID env) p price),
         st\<lparr>reservations := (reservations st)(generateUUID env \<mapsto>
              \<lparr>reservation_id = generateUUID env, userId = uid, hasCompletedPayment = False,
               reservation_details = \<lparr>props = p, totalPriceInUSD = price\<rparr>\<rparr>)\<rparr>)"
    by (simp add: createReservation_execute_def createReservation_def signed_in_user_id_def
        Let_def)
  have refused: "\<forall>price. generateReservationPrice env p = Inr price
        \<and> signed_in_user_id (auth env) = None \<longrightarrow>
      createReservation_execute env st p =
        (Inr (ErrorResult ''User is not signed in to perform this action!''), st)"
    by (simp add: createReservation_execute_def Let_def)
  have untouched: "signed_in_user_id (auth env) = None \<longrightarrow>
      snd (createReservation_execute env st p) = st"
    by (simp add: createReservation_execute_def Let_def split: sum.splits)
  from stored refused untouched show ?thesis by blast
qed

theorem createReservation_execute_signed_in_witness:
  "createReservation_execute env0 st0 props0 =
       (Inr (ReservationCreated ''r2'' props0 100),
        st0\<lparr>reservations := (reservations st0)(''r2'' \<mapsto>
              \<lparr>reservation_id = ''r2'', userId = ''A'', hasCompletedPayment = False,
               reservation_details = \<lparr>props = props0, totalPriceInUSD = 100\<rparr>\<rparr>)\<rparr>)
   \<and> createReservation_execute (env0\<lparr>auth := Some anonymous\<rparr>) st0 props0 =
       (Inr (ErrorResult ''User is not signed in to perform this action!''), st0)
   \<and> createReservation_execute (env0\<lparr>auth := None\<rparr>) st0 props0 =
       (Inr (ErrorResult ''User is not signed in to perform this action!''), st0)"
proof -
  have n1: "signed_in_user_id (Some anonymous) = None"
    by (simp add: signed_in_user_id_def anonymous_def)
  have n2: "signed_in_user_id None = None"
    by (simp add: signed_in_user_id_def)
  show ?thesis
    using createReservation_execute_signed_in [of env0 props0 st0]
          createReservation_execute_signed_in [of "env0\<lparr>auth := Some anonymous\<rparr>" props0 st0]
          createReservation_execute_signed_in [of "env0\<lparr>auth := None\<rparr>" props0 st0]
          n1 n2
    by (simp add: env0_def env_with_def alice_def)
qed

end
